theory Spec2Isabelle
  imports Main
begin

section \<open>Values, exceptions and traced results\<close>

text \<open>
  The module \<^verbatim>\<open>jsonrpcserver/async_dispatcher.py\<close> moves Python values around without
  looking inside them: request ids, positional and named arguments, handler results.
  They are modelled as JSON trees. \<open>JNum\<close> is an integer; \<open>JFloat\<close> is a float, held
  by its \<^verbatim>\<open>repr\<close> (\<^verbatim>\<open>json.loads\<close> also yields the floats nan, inf and -inf).
\<close>

datatype json =
    JNull
  | JBool bool
  | JNum int
  | JFloat string
  | JStr string
  | JArr "json list"
  | JObj "(string \<times> json) list"

text \<open>
  The \<^verbatim>\<open>except\<close> clauses of the module tell exceptions apart by class only. An exception
  is modelled by the first class of the list below that it is an instance of, together
  with its text \<^verbatim>\<open>str(exc)\<close>. \<open>OtherException n\<close> is any other class \<open>n\<close> deriving
  from \<^verbatim>\<open>Exception\<close> (ValueError, ZeroDivisionError, ...); \<open>NonException n\<close> is a class
  deriving from \<^verbatim>\<open>BaseException\<close> only (SystemExit, KeyboardInterrupt, GeneratorExit),
  which \<^verbatim>\<open>except Exception\<close> does not catch.
\<close>

datatype exn_class =
    KeyError
  | TypeError
  | JSONDecodeError
  | ValidationError
  | OtherException string
  | NonException string

datatype exn = Exn exn_class string

fun class_of :: "exn \<Rightarrow> exn_class" where
  "class_of (Exn c msg) = c"

fun str :: "exn \<Rightarrow> string" where
  "str (Exn c msg) = msg"

fun is_Exception :: "exn \<Rightarrow> bool" where
  "is_Exception (Exn (NonException n) msg) = False"
| "is_Exception (Exn c msg) = True"

text \<open>
  What the module does to the outside world, in the order it happens: a handler is
  called with its arguments, the Request objects are built, and the logging calls of
  \<^verbatim>\<open>dispatch\<close>.
\<close>

datatype event =
    Invoked "json list" "(string \<times> json) list"
  | RequestsCreated
  | HandlersAdded
  | RequestLogged string bool
  | ResponseLogged string bool
  | HandlersRemoved

text \<open>
  A Python call either returns a value (\<open>Inr\<close>) or raises (\<open>Inl\<close>); a traced call also
  yields the events it caused before it returned or raised.
\<close>

type_synonym 'a result = "exn + 'a"
type_synonym 'a traced = "(exn + 'a) \<times> event list"

section \<open>Requests, methods and responses\<close>

text \<open>
  The classes \<^verbatim>\<open>Request\<close>, \<^verbatim>\<open>Methods\<close> and the response classes are imported from sibling
  modules. A Request is the record of the attributes this module reads. The flag
  \<open>is_notification\<close> is kept as a field of its own: nothing below assumes how the
  Request class derives it from the id. \<open>method_name\<close> is the attribute
  \<^verbatim>\<open>method\<close> and \<open>req_id\<close> the attribute \<^verbatim>\<open>id\<close>, with \<open>None\<close> for the sentinel of a
  request that carries no id.
\<close>

record Request =
  method_name :: string
  args :: "json list"
  kwargs :: "(string \<times> json) list"
  req_id :: "json option"
  is_notification :: bool

text \<open>
  A registered method is a callable. \<open>signature_bind\<close> is the check that
  \<^verbatim>\<open>validate_args(func, *args, **kwargs)\<close> makes of the arguments against the signature
  of the callable: \<open>None\<close> when the arguments fit, \<open>Some msg\<close> with the text of the
  TypeError otherwise. \<open>body\<close> is what awaiting
  \<^verbatim>\<open>func(*args, **kwargs)\<close> gives: the value returned or the exception raised (for a
  handler that is not a coroutine function, the TypeError of the \<^verbatim>\<open>await\<close>). A handler
  is taken to finish, and its outcome to depend on its arguments only.
\<close>

record Method =
  signature_bind :: "json list \<Rightarrow> (string \<times> json) list \<Rightarrow> string option"
  body :: "json list \<Rightarrow> (string \<times> json) list \<Rightarrow> json result"

record Methods =
  items :: "string \<Rightarrow> Method option"

text \<open>
  One constructor per response class, holding the arguments the module passes to the
  class, in the order it passes them. The spec's names: InvalidJSONResponse is its
  ParseError, InvalidJSONRPCResponse its InvalidRequest, ExceptionResponse its
  InternalError.
\<close>

datatype Response =
    SuccessResponse json "json option"
  | MethodNotFoundResponse "json option" string bool
  | InvalidParamsResponse "json option" string bool
  | ExceptionResponse exn "json option" bool
  | InvalidJSONResponse string bool
  | InvalidJSONRPCResponse "string option" bool
  | NotificationResponse
  | BatchResponse "Response list"

text \<open>The \<^verbatim>\<open>id\<close> keyword a response was built with, for the classes that take one.\<close>

fun response_id :: "Response \<Rightarrow> json option option" where
  "response_id (SuccessResponse res i) = Some i"
| "response_id (MethodNotFoundResponse i d dbg) = Some i"
| "response_id (InvalidParamsResponse i d dbg) = Some i"
| "response_id (ExceptionResponse e i dbg) = Some i"
| "response_id (InvalidJSONResponse d dbg) = None"
| "response_id (InvalidJSONRPCResponse d dbg) = None"
| "response_id NotificationResponse = None"
| "response_id (BatchResponse rs) = None"

section \<open>call and safe_call\<close>

text \<open>
  Modelled from the spec: \<^verbatim>\<open>validate_args\<close> of methods.py, which is not part of this
  module. It binds the arguments against the handler's signature, raises the TypeError
  of the mismatch, and returns the handler itself when they fit.
\<close>

definition validate_args ::
  "Method \<Rightarrow> json list \<Rightarrow> (string \<times> json) list \<Rightarrow> Method result" where
  "validate_args m as kw =
     (case signature_bind m as kw of
        Some msg \<Rightarrow> Inl (Exn TypeError msg)
      | None \<Rightarrow> Inr m)"

text \<open>
  \<^verbatim>\<open>async def call(method, *args, **kwargs)\<close>. Python first binds the arguments of the
  call to the parameters of \<^verbatim>\<open>call\<close> itself: the first positional argument is
  \<^verbatim>\<open>method\<close>, so a keyword argument of that name is a second value for it and the call
  raises TypeError before the body of \<^verbatim>\<open>call\<close> runs. Every other keyword goes to
  \<^verbatim>\<open>**kwargs\<close>.
\<close>

definition multiple_values :: string where
  "multiple_values =
     ''call() got multiple values for argument '' @ [CHR 0x27] @ ''method'' @ [CHR 0x27]"

text \<open>
  The body, \<^verbatim>\<open>return await validate_args(method, *args, **kwargs)(*args, **kwargs)\<close>: the
  handler is called only after its arguments were bound.
\<close>

definition call :: "Method \<Rightarrow> json list \<Rightarrow> (string \<times> json) list \<Rightarrow> json traced" where
  "call m as kw =
     (if ''method'' \<in> set (map fst kw) then (Inl (Exn TypeError multiple_values), [])
      else
        (case validate_args m as kw of
           Inl exc \<Rightarrow> (Inl exc, [])
         | Inr f \<Rightarrow> (body f as kw, [Invoked as kw])))"

text \<open>
  \<^verbatim>\<open>safe_call\<close>. The body of the \<^verbatim>\<open>try\<close> is
  \<^verbatim>\<open>call(methods.items[request.method], *request.args, **request.kwargs)\<close>; the
  subscript of the dictionary raises KeyError (its text is the key) for a name that is
  not registered. Then the \<^verbatim>\<open>except\<close> clauses in their order, and the \<^verbatim>\<open>return\<close> after
  the statement; an exception that no clause catches stays raised. The \<^verbatim>\<open>finally\<close>
  clause runs last on every path, and its \<^verbatim>\<open>return\<close> replaces whatever the statement
  was about to do: a pending return value and a pending exception alike.
\<close>

definition safe_call :: "Request \<Rightarrow> Methods \<Rightarrow> bool \<Rightarrow> Response traced" where
  "safe_call request methods debug =
     (case (case items methods (method_name request) of
              None \<Rightarrow> (Inl (Exn KeyError (method_name request)), [])
            | Some m \<Rightarrow> call m (args request) (kwargs request)) of
        (outcome, evs) \<Rightarrow>
          (if is_notification request then Inr NotificationResponse
           else
             (case outcome of
                Inl exc \<Rightarrow>
                  if class_of exc = KeyError then
                    Inr (MethodNotFoundResponse (req_id request) (method_name request) debug)
                  else if class_of exc = TypeError then
                    Inr (InvalidParamsResponse (req_id request) (str exc) debug)
                  else if is_Exception exc then
                    Inr (ExceptionResponse exc (req_id request) debug)
                  else Inl exc
              | Inr res \<Rightarrow> Inr (SuccessResponse res (req_id request))),
           evs))"

section \<open>call_requests\<close>

text \<open>
  \<^verbatim>\<open>asyncio.gather\<close> belongs to Python's library. Its contract: the awaitables run as
  tasks of the event loop and finish in an order the module does not control; the first
  exception a task raises is raised to the caller of \<^verbatim>\<open>gather\<close> at once; when all
  tasks have returned, the result is the list of their values in the order of the
  awaitables, not of completion.

  The order of completion is a parameter, \<open>sched\<close>: a list of task indices. Any list is
  accepted: indices out of range and repetitions are dropped, and the tasks it does not
  name finish last, in their own order.
\<close>

definition completion_order :: "nat \<Rightarrow> nat list \<Rightarrow> nat list" where
  "completion_order n sched =
     remdups (filter (\<lambda>i. i < n) sched) @ filter (\<lambda>i. i \<notin> set sched) [0..<n]"

text \<open>
  The tasks in their order of completion, each with its index: the values collected so
  far, or the first exception, with the events up to that point.
\<close>

fun run_tasks :: "(nat \<times> 'a traced) list \<Rightarrow> ((nat \<times> 'a) list) traced" where
  "run_tasks [] = (Inr [], [])"
| "run_tasks ((i, (Inl exc, evs)) # ts) = (Inl exc, evs)"
| "run_tasks ((i, (Inr v, evs)) # ts) =
     (case run_tasks ts of
        (Inl exc, evs') \<Rightarrow> (Inl exc, evs @ evs')
      | (Inr finished, evs') \<Rightarrow> (Inr ((i, v) # finished), evs @ evs'))"

definition gather :: "nat list \<Rightarrow> 'a traced list \<Rightarrow> ('a list) traced" where
  "gather sched aws =
     (case run_tasks (map (\<lambda>i. (i, aws ! i)) (completion_order (length aws) sched)) of
        (Inl exc, evs) \<Rightarrow> (Inl exc, evs)
      | (Inr finished, evs) \<Rightarrow> (Inr (map snd (sort_key fst finished)), evs))"

text \<open>
  The argument of \<^verbatim>\<open>call_requests\<close> is one Request or an iterable of them; the
  \<^verbatim>\<open>isinstance\<close> test tells the two apart. The test names \<^verbatim>\<open>collections.Iterable\<close>,
  which exists up to Python 3.9; the model is of the module run on such an interpreter.
\<close>

datatype Requests = Single Request | Many "Request list"

definition call_requests ::
  "nat list \<Rightarrow> Requests \<Rightarrow> Methods \<Rightarrow> bool \<Rightarrow> Response traced" where
  "call_requests sched requests methods debug =
     (case requests of
        Many rs \<Rightarrow>
          (case gather sched (map (\<lambda>r. safe_call r methods debug) rs) of
             (Inl exc, evs) \<Rightarrow> (Inl exc, evs)
           | (Inr responses, evs) \<Rightarrow> (Inr (BatchResponse responses), evs))
      | Single r \<Rightarrow> safe_call r methods debug)"

section \<open>dispatch_pure and dispatch\<close>

text \<open>
  What the module imports and calls without defining it: \<^verbatim>\<open>json.loads\<close>,
  \<^verbatim>\<open>validate\<close> (with the schema), \<^verbatim>\<open>create_requests\<close>, the process-wide registry
  \<^verbatim>\<open>global_methods\<close>, and \<^verbatim>\<open>str\<close> of a response, which \<^verbatim>\<open>dispatch\<close> logs. They are
  parameters. The first two return or raise; \<^verbatim>\<open>create_requests\<close> is given a value that
  passed the schema and returns the Request or Requests.
\<close>

record Collaborators =
  deserialize :: "string \<Rightarrow> json result"
  validate :: "json \<Rightarrow> json result"
  create_requests :: "json \<Rightarrow> json option \<Rightarrow> bool \<Rightarrow> Requests"
  global_methods :: Methods
  render :: "Response \<Rightarrow> string"

text \<open>
  \<^verbatim>\<open>dispatch_pure\<close>. The \<^verbatim>\<open>try\<close> holds \<^verbatim>\<open>validate(deserialize(request), schema)\<close> only;
  its two \<^verbatim>\<open>except\<close> clauses go by the class of the exception, whichever of the two
  calls raised it, and any other exception stays raised. \<open>context\<close> is \<open>None\<close> for
  the sentinel NOCONTEXT.
\<close>

definition dispatch_pure ::
  "Collaborators \<Rightarrow> nat list \<Rightarrow> string \<Rightarrow> Methods \<Rightarrow> json option \<Rightarrow> bool \<Rightarrow> bool
     \<Rightarrow> Response traced" where
  "dispatch_pure env sched request methods context convert_camel_case debug =
     (case (case deserialize env request of
              Inl exc \<Rightarrow> Inl exc
            | Inr v \<Rightarrow> validate env v) of
        Inl exc \<Rightarrow>
          if class_of exc = JSONDecodeError then
            (Inr (InvalidJSONResponse (str exc) debug), [])
          else if class_of exc = ValidationError then
            (Inr (InvalidJSONRPCResponse None debug), [])
          else (Inl exc, [])
      | Inr deserialized \<Rightarrow>
          (case call_requests sched
                  (create_requests env deserialized context convert_camel_case)
                  methods debug of
             (outcome, evs) \<Rightarrow> (outcome, RequestsCreated # evs)))"

text \<open>
  \<^verbatim>\<open>dispatch\<close>, as its body runs once the decorator has filled in the options:
  \<open>methods\<close> is \<open>None\<close> when the caller left it out or passed \<^verbatim>\<open>None\<close>. There is no
  \<^verbatim>\<open>try\<close> around \<^verbatim>\<open>dispatch_pure\<close>: when it raises, the response is not logged and the
  handlers are not removed.
\<close>

definition dispatch ::
  "Collaborators \<Rightarrow> nat list \<Rightarrow> string \<Rightarrow> Methods option \<Rightarrow> bool \<Rightarrow> bool \<Rightarrow> json option
     \<Rightarrow> bool \<Rightarrow> bool \<Rightarrow> Response traced" where
  "dispatch env sched request methods basic_logging convert_camel_case context debug
       trim_log_values =
     (let methods' = (case methods of None \<Rightarrow> global_methods env | Some ms \<Rightarrow> ms);
          before = (if basic_logging then [HandlersAdded] else [])
                     @ [RequestLogged request trim_log_values]
      in case dispatch_pure env sched request methods' context convert_camel_case debug of
           (Inl exc, evs) \<Rightarrow> (Inl exc, before @ evs)
         | (Inr response, evs) \<Rightarrow>
             (Inr response,
              before @ evs @ [ResponseLogged (render env response) trim_log_values]
                @ (if basic_logging then [HandlersRemoved] else [])))"

section \<open>Example handlers and requests\<close>

text \<open>Handlers that return, and handlers whose body raises each kind of exception.\<close>

definition no_params :: "json list \<Rightarrow> (string \<times> json) list \<Rightarrow> string option" where
  "no_params as kw =
     (if as = [] \<and> kw = [] then None else Some ''too many positional arguments'')"

definition ping :: Method where
  "ping = \<lparr>signature_bind = no_params, body = (\<lambda>as kw. Inr (JStr ''pong''))\<rparr>"

definition add :: Method where
  "add = \<lparr>signature_bind =
            (\<lambda>as kw. if length as = 2 \<and> kw = [] then None
                      else Some ''missing a required argument''),
          body =
            (\<lambda>as kw. case as of
                        [JNum a, JNum b] \<Rightarrow> Inr (JNum (a + b))
                      | _ \<Rightarrow> Inl (Exn TypeError ''unsupported operand type(s) for +''))\<rparr>"

definition bad_value :: Method where
  "bad_value = \<lparr>signature_bind = no_params,
                body = (\<lambda>as kw. Inl (Exn (OtherException ''ValueError'') ''bad value''))\<rparr>"

definition bad_key :: Method where
  "bad_key = \<lparr>signature_bind = no_params,
              body = (\<lambda>as kw. Inl (Exn KeyError ''colour''))\<rparr>"

definition quit :: Method where
  "quit = \<lparr>signature_bind = no_params,
           body = (\<lambda>as kw. Inl (Exn (NonException ''SystemExit'') ''1''))\<rparr>"

text \<open>
  \<^verbatim>\<open>async def quit_by(method=None): sys.exit(1)\<close>: a handler with a parameter named
  \<^verbatim>\<open>method\<close>.
\<close>

definition quit_by :: Method where
  "quit_by = \<lparr>signature_bind =
                (\<lambda>as kw. if length as + length kw \<le> 1 \<and> set (map fst kw) \<subseteq> {''method''}
                          then None else Some ''too many positional arguments''),
              body = (\<lambda>as kw. Inl (Exn (NonException ''SystemExit'') ''1''))\<rparr>"

definition example_methods :: Methods where
  "example_methods =
     \<lparr>items = map_of [(''ping'', ping), (''add'', add), (''bad_value'', bad_value),
                       (''bad_key'', bad_key), (''quit'', quit), (''quit_by'', quit_by)]\<rparr>"

definition request_of :: "string \<Rightarrow> json list \<Rightarrow> json \<Rightarrow> Request" where
  "request_of name as i =
     \<lparr>method_name = name, args = as, kwargs = [], req_id = Some i, is_notification = False\<rparr>"

definition keyword_request_of :: "string \<Rightarrow> (string \<times> json) list \<Rightarrow> json \<Rightarrow> Request" where
  "keyword_request_of name kw i =
     \<lparr>method_name = name, args = [], kwargs = kw, req_id = Some i, is_notification = False\<rparr>"

definition notification_of :: "string \<Rightarrow> json list \<Rightarrow> Request" where
  "notification_of name as =
     \<lparr>method_name = name, args = as, kwargs = [], req_id = None, is_notification = True\<rparr>"

text \<open>
  A necessary condition for a text to be JSON, from the grammar of RFC 8259
  (\<^verbatim>\<open>JSON-text = ws value ws\<close>): after leading whitespace a value begins with one of
  \<^verbatim>\<open>{ [ " -\<close>, a digit, or the first letter of \<^verbatim>\<open>true\<close>, \<^verbatim>\<open>false\<close>, \<^verbatim>\<open>null\<close>, and before
  trailing whitespace it ends with one of \<^verbatim>\<open>} ] "\<close>, a digit, or the last letter of those
  three words. A text that fails the test is not valid JSON.
\<close>

definition json_whitespace :: "char \<Rightarrow> bool" where
  "json_whitespace c = (c \<in> set [CHR '' '', CHR 0x09, CHR 0x0A, CHR 0x0D])"

definition plausible_json :: "string \<Rightarrow> bool" where
  \<open>plausible_json t =
     (dropWhile json_whitespace t \<noteq> []
      \<and> hd (dropWhile json_whitespace t) \<in> set ''{["-0123456789tfn''
      \<and> hd (dropWhile json_whitespace (rev t)) \<in> set ''}]"0123456789el'')\<close>

text \<open>
  Example collaborators. The parser answers the texts it lists as \<^verbatim>\<open>json.loads\<close> does:
  a text that opens a hundred thousand arrays exhausts the recursion limit
  (RecursionError), the text \<^verbatim>\<open>NaN\<close> is accepted as the float nan, two request objects are
  parsed, and a lone brace is rejected; every other text is answered as the empty text
  is. The schema asks for an object with a string \<open>method\<close>; the text of its error is
  what jsonschema prints after the rejected value. The Request is built from such an
  object (no params).
\<close>

definition example_deserialize :: "string \<Rightarrow> json result" where
  \<open>example_deserialize t =
     (if 100000 \<le> length (takeWhile (\<lambda>c. c = CHR ''['') t) then
        Inl (Exn (OtherException ''RecursionError'')
               ''maximum recursion depth exceeded while decoding a JSON array from a unicode string'')
      else if t = ''NaN'' then Inr (JFloat ''nan'')
      else if t = ''{"jsonrpc": "2.0", "method": "quit", "id": 1}'' then
        Inr (JObj [(''jsonrpc'', JStr ''2.0''), (''method'', JStr ''quit''), (''id'', JNum 1)])
      else if t = ''{"jsonrpc": "2.0", "id": 1}'' then
        Inr (JObj [(''jsonrpc'', JStr ''2.0''), (''id'', JNum 1)])
      else if t = ''{'' then
        Inl (Exn JSONDecodeError
               ''Expecting property name enclosed in double quotes: line 1 column 2 (char 1)'')
      else Inl (Exn JSONDecodeError ''Expecting value: line 1 column 1 (char 0)''))\<close>

definition example_validate :: "json \<Rightarrow> json result" where
  "example_validate v =
     (case v of
        JObj kvs \<Rightarrow>
          (case map_of kvs ''method'' of
             Some (JStr name) \<Rightarrow> Inr v
           | _ \<Rightarrow> Inl (Exn ValidationError ''is not valid under any of the given schemas''))
      | _ \<Rightarrow> Inl (Exn ValidationError ''is not valid under any of the given schemas''))"

definition example_create_requests :: "json \<Rightarrow> json option \<Rightarrow> bool \<Rightarrow> Requests" where
  "example_create_requests v context convert_camel_case =
     (case v of
        JObj kvs \<Rightarrow>
          Single \<lparr>method_name = (case map_of kvs ''method'' of Some (JStr name) \<Rightarrow> name | _ \<Rightarrow> []),
                  args = [], kwargs = [], req_id = map_of kvs ''id'',
                  is_notification = (map_of kvs ''id'' = None)\<rparr>
      | _ \<Rightarrow> Many [])"

definition example_env :: Collaborators where
  "example_env =
     \<lparr>deserialize = example_deserialize, validate = example_validate,
      create_requests = example_create_requests, global_methods = example_methods,
      render = (\<lambda>response. ''response'')\<rparr>"

section \<open>Tasks and their order of completion\<close>

lemma run_tasks_Inl:
  "fst (run_tasks ts) = Inl exc \<Longrightarrow> \<exists>t \<in> set ts. fst (snd t) = Inl exc"
  by (induction ts rule: run_tasks.induct) (auto split: prod.splits sum.splits)

lemma run_tasks_all_returned:
  "fst (run_tasks ts) = Inr finished \<Longrightarrow> \<forall>t \<in> set ts. \<exists>v. fst (snd t) = Inr v"
  by (induction ts arbitrary: finished rule: run_tasks.induct)
     (auto split: prod.splits sum.splits)

lemma run_tasks_returns:
  "\<forall>i \<in> set js. fst (aws ! i) = Inr (f i) \<Longrightarrow>
     fst (run_tasks (map (\<lambda>i. (i, aws ! i)) js)) = Inr (map (\<lambda>i. (i, f i)) js)"
proof (induction js)
  case Nil
  then show ?case by simp
next
  case (Cons j js)
  then obtain evs where "aws ! j = (Inr (f j), evs)"
    by (cases "aws ! j") auto
  with Cons show ?case
    by (auto split: prod.splits sum.splits)
qed

lemma insort_key_fst_map:
  "insort_key fst (i, f i) (map (\<lambda>j. (j, f j)) js) = map (\<lambda>j. (j, f j)) (insort i js)"
  by (induction js) auto

lemma sort_key_fst_map:
  "sort_key fst (map (\<lambda>j. (j, f j)) js) = map (\<lambda>j. (j, f j)) (sort js)"
  by (induction js) (auto simp: insort_key_fst_map)

text \<open>Whatever the schedule, every task finishes exactly once.\<close>

lemma distinct_completion_order: "distinct (completion_order n sched)"
  by (auto simp: completion_order_def)

lemma set_completion_order: "set (completion_order n sched) = {0..<n}"
  by (auto simp: completion_order_def)

lemma sort_completion_order: "sort (completion_order n sched) = [0..<n]"
proof -
  have "sort (completion_order n sched) = sorted_list_of_set (set (completion_order n sched))"
    by (simp add: sorted_list_of_set_sort_remdups distinct_remdups_id
          distinct_completion_order)
  then show ?thesis
    by (simp add: set_completion_order)
qed

lemma gather_returns:
  assumes "map fst aws = map Inr vs"
  shows "fst (gather sched aws) = Inr vs"
proof -
  let ?n = "length aws"
  have len: "length vs = ?n"
    using assms by (metis length_map)
  have nth: "fst (aws ! i) = Inr (vs ! i)" if "i < ?n" for i
    using assms that len by (metis nth_map)
  have "\<forall>i \<in> set (completion_order ?n sched). fst (aws ! i) = Inr (vs ! i)"
    using nth by (simp add: set_completion_order)
  then have run: "fst (run_tasks (map (\<lambda>i. (i, aws ! i)) (completion_order ?n sched)))
      = Inr (map (\<lambda>i. (i, vs ! i)) (completion_order ?n sched))"
    by (rule run_tasks_returns)
  have "map snd (sort_key fst (map (\<lambda>i. (i, vs ! i)) (completion_order ?n sched))) = vs"
    unfolding len [symmetric]
    by (simp add: sort_key_fst_map sort_completion_order comp_def map_nth)
  with run show ?thesis
    by (auto simp: gather_def split: prod.splits sum.splits)
qed

lemma gather_Inr_iff:
  "fst (gather sched aws) = Inr vs \<longleftrightarrow> map fst aws = map Inr vs"
proof
  assume g: "fst (gather sched aws) = Inr vs"
  let ?ts = "map (\<lambda>i. (i, aws ! i)) (completion_order (length aws) sched)"
  from g obtain finished where "fst (run_tasks ?ts) = Inr finished"
    by (auto simp: gather_def split: prod.splits sum.splits)
  then have "\<forall>t \<in> set ?ts. \<exists>v. fst (snd t) = Inr v"
    by (rule run_tasks_all_returned)
  then have all: "\<forall>i < length aws. \<exists>v. fst (aws ! i) = Inr v"
    by (simp add: set_completion_order)
  define ws where "ws = map (\<lambda>a. case fst a of Inr v \<Rightarrow> v) aws"
  have "map fst aws = map Inr ws"
    unfolding ws_def using all
    by (auto simp: list_eq_iff_nth_eq split: sum.splits)
  moreover from this have "fst (gather sched aws) = Inr ws"
    by (rule gather_returns)
  ultimately show "map fst aws = map Inr vs"
    using g by simp
next
  assume "map fst aws = map Inr vs"
  then show "fst (gather sched aws) = Inr vs"
    by (rule gather_returns)
qed

lemma gather_Inl:
  "fst (gather sched aws) = Inl exc \<Longrightarrow> \<exists>a \<in> set aws. fst a = Inl exc"
proof -
  assume g: "fst (gather sched aws) = Inl exc"
  let ?ts = "map (\<lambda>i. (i, aws ! i)) (completion_order (length aws) sched)"
  from g have "fst (run_tasks ?ts) = Inl exc"
    by (auto simp: gather_def split: prod.splits sum.splits)
  then obtain t where "t \<in> set ?ts" "fst (snd t) = Inl exc"
    using run_tasks_Inl by blast
  then show ?thesis
    by (auto simp: set_completion_order)
qed

section \<open>Exceptions that leave the module\<close>

lemma safe_call_Inl:
  "fst (safe_call request methods debug) = Inl exc \<Longrightarrow> \<not> is_Exception exc"
  by (auto simp: safe_call_def call_def validate_args_def
        split: prod.splits sum.splits option.splits if_splits)

lemma call_requests_Inl:
  "fst (call_requests sched requests methods debug) = Inl exc \<Longrightarrow> \<not> is_Exception exc"
proof (cases requests)
  case (Single r)
  assume "fst (call_requests sched requests methods debug) = Inl exc"
  with Single show ?thesis
    using safe_call_Inl by (simp add: call_requests_def)
next
  case (Many rs)
  assume "fst (call_requests sched requests methods debug) = Inl exc"
  with Many have "fst (gather sched (map (\<lambda>r. safe_call r methods debug) rs)) = Inl exc"
    by (auto simp: call_requests_def split: prod.splits sum.splits)
  then have "\<exists>a \<in> set (map (\<lambda>r. safe_call r methods debug) rs). fst a = Inl exc"
    by (rule gather_Inl)
  then obtain r where "fst (safe_call r methods debug) = Inl exc"
    by auto
  then show ?thesis
    by (rule safe_call_Inl)
qed

lemma dispatch_pure_Inl:
  "deserialize env text = Inr v \<Longrightarrow> validate env v = Inr d \<Longrightarrow>
   fst (dispatch_pure env sched text methods context convert_camel_case debug) = Inl exc \<Longrightarrow>
   \<not> is_Exception exc"
proof -
  assume "deserialize env text = Inr v" and "validate env v = Inr d"
    and "fst (dispatch_pure env sched text methods context convert_camel_case debug)
           = Inl exc"
  then have
    "fst (call_requests sched (create_requests env d context convert_camel_case)
            methods debug) = Inl exc"
    by (simp add: dispatch_pure_def split: prod.splits)
  then show ?thesis
    by (rule call_requests_Inl)
qed

lemmas example_defs =
  example_methods_def ping_def add_def bad_value_def bad_key_def quit_def quit_by_def
  no_params_def request_of_def keyword_request_of_def notification_of_def

lemmas example_env_defs =
  example_env_def example_deserialize_def example_validate_def example_create_requests_def

section \<open>The claims\<close>

subsection \<open>C1: a notification is always answered by NotificationResponse\<close>

text \<open>
  C1. For every Request whose \<open>is_notification\<close> flag is true, \<open>safe_call\<close> returns
  NotificationResponse, whatever the registry holds and whatever the lookup, the
  binding or the handler did: returned, missed, failed to bind, or raised.
\<close>

theorem safe_call_notification:
  "is_notification request \<Longrightarrow>
     fst (safe_call request methods debug) = Inr NotificationResponse"
  by (simp add: safe_call_def split: prod.splits)

theorem safe_call_notification_witness:
  "is_notification (notification_of ''quit'' [])
   \<and> fst (safe_call (notification_of ''quit'' []) example_methods True)
       = Inr NotificationResponse
   \<and> fst (safe_call (notification_of ''missing'' []) example_methods True)
       = Inr NotificationResponse"
  using safe_call_notification [of "notification_of ''quit'' []" example_methods True]
    safe_call_notification [of "notification_of ''missing'' []" example_methods True]
  by (simp add: notification_of_def)

subsection \<open>C2: what safe_call lets through\<close>

text \<open>
  C2 as stated fails. The last clause of \<open>safe_call\<close> is \<^verbatim>\<open>except Exception\<close>: a handler
  that raises SystemExit on a request with an id is not caught by any clause, the
  \<^verbatim>\<open>finally\<close> clause does not return, and the exception leaves \<open>safe_call\<close>.
\<close>

theorem safe_call_system_exit_propagates:
  "fst (safe_call (request_of ''quit'' [] (JNum 1)) example_methods False)
     = Inl (Exn (NonException ''SystemExit'') ''1'')"
  by (simp add: safe_call_def call_def validate_args_def example_defs)

text \<open>
  C2, amended. For every Request and registry, \<open>safe_call\<close> ends in exactly one of two
  ways: it returns one Response, or it raises. It raises exactly when the request is not
  a notification and its handler, found in the registry and with its arguments bound
  (no keyword argument is named \<^verbatim>\<open>method\<close>, and they fit the handler's signature),
  raises an exception that does not derive from \<^verbatim>\<open>Exception\<close>; that exception is the
  one raised. So a method miss, a binding mismatch and every handler exception deriving
  from \<^verbatim>\<open>Exception\<close> are converted into a Response. On the paths of \<open>dispatch_pure\<close>
  where the text was deserialized and passed the schema, an exception that leaves
  \<open>dispatch_pure\<close> is again one that does not derive from \<^verbatim>\<open>Exception\<close>.
\<close>

theorem safe_call_raises_only_non_exception:
  "(fst (safe_call request methods debug) = Inl exc \<longleftrightarrow>
      \<not> is_notification request \<and> \<not> is_Exception exc
      \<and> (\<exists>m. items methods (method_name request) = Some m
             \<and> ''method'' \<notin> set (map fst (kwargs request))
             \<and> signature_bind m (args request) (kwargs request) = None
             \<and> body m (args request) (kwargs request) = Inl exc))
   \<and> (deserialize env text = Inr v \<and> validate env v = Inr d
        \<and> fst (dispatch_pure env sched text methods context convert_camel_case debug)
            = Inl exc'
      \<longrightarrow> \<not> is_Exception exc')"
proof
  show "fst (safe_call request methods debug) = Inl exc \<longleftrightarrow>
      \<not> is_notification request \<and> \<not> is_Exception exc
      \<and> (\<exists>m. items methods (method_name request) = Some m
             \<and> ''method'' \<notin> set (map fst (kwargs request))
             \<and> signature_bind m (args request) (kwargs request) = None
             \<and> body m (args request) (kwargs request) = Inl exc)"
    by (cases exc; auto simp: safe_call_def call_def validate_args_def
          split: prod.splits sum.splits option.splits if_splits)
next
  show "deserialize env text = Inr v \<and> validate env v = Inr d
        \<and> fst (dispatch_pure env sched text methods context convert_camel_case debug)
            = Inl exc'
      \<longrightarrow> \<not> is_Exception exc'"
    using dispatch_pure_Inl by blast
qed

theorem safe_call_raises_only_non_exception_witness:
  \<open>fst (safe_call (request_of ''bad_value'' [] (JNum 1)) example_methods False)
     \<noteq> Inl (Exn (OtherException ''ValueError'') ''bad value'')
   \<and> safe_call (keyword_request_of ''quit_by'' [(''method'', JNum 1)] (JNum 1))
         example_methods False
       = (Inr (InvalidParamsResponse (Some (JNum 1)) multiple_values False), [])
   \<and> fst (dispatch_pure example_env [] ''{"jsonrpc": "2.0", "method": "quit", "id": 1}''
            example_methods None False False)
       = Inl (Exn (NonException ''SystemExit'') ''1'')
   \<and> \<not> is_Exception (Exn (NonException ''SystemExit'') ''1'')\<close>
  using safe_call_raises_only_non_exception
    [of "request_of ''bad_value'' [] (JNum 1)" example_methods False
        "Exn (OtherException ''ValueError'') ''bad value''"
        example_env \<open>''{"jsonrpc": "2.0", "method": "quit", "id": 1}''\<close>
        "JObj [(''jsonrpc'', JStr ''2.0''), (''method'', JStr ''quit''), (''id'', JNum 1)]"
        "JObj [(''jsonrpc'', JStr ''2.0''), (''method'', JStr ''quit''), (''id'', JNum 1)]"
        "[]" None False "Exn (NonException ''SystemExit'') ''1''"]
    safe_call_raises_only_non_exception
    [of "keyword_request_of ''quit_by'' [(''method'', JNum 1)] (JNum 1)" example_methods
        False "Exn (NonException ''SystemExit'') ''1''"]
  by (simp add: dispatch_pure_def call_requests_def safe_call_def call_def
        validate_args_def example_defs example_env_defs)

subsection \<open>C3: a batch is answered in the order of its requests\<close>

text \<open>
  C3. For every list of Requests given to \<open>call_requests\<close> and every order in which the
  handlers finish, what \<open>call_requests\<close> returns is a BatchResponse that holds, position
  by position, the Response of \<open>safe_call\<close> to the Request at that position: one per
  Request, in the order of the input. (It returns one whenever every \<open>safe_call\<close>
  returns.)
\<close>

theorem call_requests_batch_order:
  "fst (call_requests sched (Many rs) methods debug) = Inr response \<longleftrightarrow>
     (\<exists>responses. response = BatchResponse responses
        \<and> map (\<lambda>r. fst (safe_call r methods debug)) rs = map Inr responses)"
proof -
  let ?aws = "map (\<lambda>r. safe_call r methods debug) rs"
  have "fst (call_requests sched (Many rs) methods debug) = Inr response \<longleftrightarrow>
          (\<exists>responses. response = BatchResponse responses
             \<and> fst (gather sched ?aws) = Inr responses)"
    by (auto simp: call_requests_def split: prod.splits sum.splits)
  then show ?thesis
    by (simp add: gather_Inr_iff comp_def)
qed

text \<open>The second handler finishes first; the batch is in the order of the requests.\<close>

theorem call_requests_batch_order_witness:
  "fst (call_requests [1, 0]
          (Many [request_of ''add'' [JNum 1, JNum 2] (JNum 1),
                 request_of ''missing'' [] (JNum 2)])
          example_methods False)
     = Inr (BatchResponse
              [SuccessResponse (JNum 3) (Some (JNum 1)),
               MethodNotFoundResponse (Some (JNum 2)) ''missing'' False])"
  using call_requests_batch_order [of "[1, 0]"
      "[request_of ''add'' [JNum 1, JNum 2] (JNum 1), request_of ''missing'' [] (JNum 2)]"
      example_methods False
      "BatchResponse [SuccessResponse (JNum 3) (Some (JNum 1)),
                      MethodNotFoundResponse (Some (JNum 2)) ''missing'' False]"]
  by (simp add: safe_call_def call_def validate_args_def example_defs)

subsection \<open>C4: exceptions raised by the handler\<close>

text \<open>
  C4 as stated fails. A handler that was found and whose arguments were bound raises
  SystemExit: no clause catches it and no response is returned. Another raises KeyError
  from its own body: the first clause catches it, and the response is
  MethodNotFoundResponse, not ExceptionResponse.
\<close>

theorem handler_exception_not_internal_error:
  "items example_methods ''quit'' = Some quit
   \<and> signature_bind quit [] [] = None
   \<and> body quit [] [] = Inl (Exn (NonException ''SystemExit'') ''1'')
   \<and> fst (safe_call (request_of ''quit'' [] (JNum 7)) example_methods True)
       = Inl (Exn (NonException ''SystemExit'') ''1'')
   \<and> items example_methods ''bad_key'' = Some bad_key
   \<and> signature_bind bad_key [] [] = None
   \<and> body bad_key [] [] = Inl (Exn KeyError ''colour'')
   \<and> fst (safe_call (request_of ''bad_key'' [] (JNum 7)) example_methods True)
       = Inr (MethodNotFoundResponse (Some (JNum 7)) ''bad_key'' True)"
  by (simp add: safe_call_def call_def validate_args_def example_defs)

text \<open>
  C4, amended. For every non-notification Request whose method is found in the registry
  and whose arguments bind (no keyword argument is named \<^verbatim>\<open>method\<close>, which \<open>call\<close>
  keeps for its own parameter, and they fit the handler's signature), an exception raised by the handler that derives from
  \<^verbatim>\<open>Exception\<close> and is neither a KeyError nor a TypeError yields an ExceptionResponse
  (the spec's InternalError) built from that exception, the id of the request and the
  debug flag; the handler was invoked once.
\<close>

theorem safe_call_handler_exception:
  "\<not> is_notification request \<Longrightarrow>
   items methods (method_name request) = Some m \<Longrightarrow>
   ''method'' \<notin> set (map fst (kwargs request)) \<Longrightarrow>
   signature_bind m (args request) (kwargs request) = None \<Longrightarrow>
   body m (args request) (kwargs request) = Inl exc \<Longrightarrow>
   is_Exception exc \<Longrightarrow> class_of exc \<noteq> KeyError \<Longrightarrow> class_of exc \<noteq> TypeError \<Longrightarrow>
   safe_call request methods debug
     = (Inr (ExceptionResponse exc (req_id request) debug),
        [Invoked (args request) (kwargs request)])"
  by (simp add: safe_call_def call_def validate_args_def)

theorem safe_call_handler_exception_witness:
  "body bad_value [] [] = Inl (Exn (OtherException ''ValueError'') ''bad value'')
   \<and> safe_call (request_of ''bad_value'' [] (JStr ''a1'')) example_methods True
       = (Inr (ExceptionResponse (Exn (OtherException ''ValueError'') ''bad value'')
                 (Some (JStr ''a1'')) True),
          [Invoked [] []])"
  using safe_call_handler_exception
    [of "request_of ''bad_value'' [] (JStr ''a1'')" example_methods bad_value
        "Exn (OtherException ''ValueError'') ''bad value''" True]
  by (simp add: example_defs)

subsection \<open>C5: a method that is not registered\<close>

text \<open>
  C5. For every non-notification Request whose method name is not in the registry,
  \<open>safe_call\<close> returns a MethodNotFoundResponse whose data is the requested method
  name (and whose id is the request's), and no handler is invoked: the trace is empty.
\<close>

theorem safe_call_method_not_found:
  "\<not> is_notification request \<Longrightarrow> items methods (method_name request) = None \<Longrightarrow>
   safe_call request methods debug
     = (Inr (MethodNotFoundResponse (req_id request) (method_name request) debug), [])"
  by (simp add: safe_call_def)

theorem safe_call_method_not_found_witness:
  "items example_methods ''missing'' = None
   \<and> safe_call (request_of ''missing'' [JNum 5] (JNum 2)) example_methods False
       = (Inr (MethodNotFoundResponse (Some (JNum 2)) ''missing'' False), [])"
  using safe_call_method_not_found
    [of "request_of ''missing'' [JNum 5] (JNum 2)" example_methods False]
  by (simp add: example_defs)

subsection \<open>C6 and C7: texts that are not requests\<close>

text \<open>
  C6 as stated fails. The deserializer is \<^verbatim>\<open>json.loads\<close>, and \<open>dispatch_pure\<close> catches
  JSONDecodeError and ValidationError only. The text \<^verbatim>\<open>NaN\<close> is not valid JSON, but
  \<^verbatim>\<open>json.loads\<close> accepts it: the value goes on to the schema, and the response is
  InvalidJSONRPCResponse, not the ParseError. A text that only opens a hundred thousand
  arrays is not valid JSON either; on it \<^verbatim>\<open>json.loads\<close> raises RecursionError, which no
  clause catches: \<open>dispatch_pure\<close> raises.
\<close>

theorem dispatch_pure_malformed_not_parse_error:
  "\<not> plausible_json ''NaN''
   \<and> deserialize example_env ''NaN'' = Inr (JFloat ''nan'')
   \<and> dispatch_pure example_env [] ''NaN'' example_methods None False False
       = (Inr (InvalidJSONRPCResponse None False), [])
   \<and> \<not> plausible_json (replicate 100000 (CHR ''[''))
   \<and> dispatch_pure example_env [] (replicate 100000 (CHR ''['')) example_methods None
         False False
       = (Inl (Exn (OtherException ''RecursionError'')
                 ''maximum recursion depth exceeded while decoding a JSON array from a unicode string''),
          [])"
  by (simp add: plausible_json_def json_whitespace_def dispatch_pure_def example_env_defs)

text \<open>
  C6, amended. For every input text on which the deserializer raises JSONDecodeError,
  \<open>dispatch_pure\<close> returns (it does not raise) an InvalidJSONResponse, the spec's
  ParseError, whose data is the text of the parser's error, and stops there: no Request
  is built and no handler invoked, the trace is empty. Nothing is said of a text that
  is not valid JSON and that the deserializer accepts, or fails on with another
  exception.
\<close>

theorem dispatch_pure_parse_error:
  "deserialize env text = Inl (Exn JSONDecodeError msg) \<Longrightarrow>
   dispatch_pure env sched text methods context convert_camel_case debug
     = (Inr (InvalidJSONResponse msg debug), [])"
  by (simp add: dispatch_pure_def)

theorem dispatch_pure_parse_error_witness:
  "deserialize example_env ''{''
     = Inl (Exn JSONDecodeError
              ''Expecting property name enclosed in double quotes: line 1 column 2 (char 1)'')
   \<and> dispatch_pure example_env [] ''{'' example_methods None False True
       = (Inr (InvalidJSONResponse
                 ''Expecting property name enclosed in double quotes: line 1 column 2 (char 1)''
                 True),
          [])"
  using dispatch_pure_parse_error
    [of example_env "''{''"
        "''Expecting property name enclosed in double quotes: line 1 column 2 (char 1)''"
        "[]" example_methods None False True]
  by (simp add: example_env_defs)

text \<open>
  C7. For every input text that deserializes to a JSON value which the schema
  validation rejects with a ValidationError, \<open>dispatch_pure\<close> returns an
  InvalidJSONRPCResponse, the spec's InvalidRequest (with no data), and stops there: no
  Request is built and no handler invoked, the trace is empty.
\<close>

theorem dispatch_pure_invalid_request:
  "deserialize env text = Inr v \<Longrightarrow> validate env v = Inl (Exn ValidationError msg) \<Longrightarrow>
   dispatch_pure env sched text methods context convert_camel_case debug
     = (Inr (InvalidJSONRPCResponse None debug), [])"
  by (simp add: dispatch_pure_def)

theorem dispatch_pure_invalid_request_witness:
  \<open>deserialize example_env ''{"jsonrpc": "2.0", "id": 1}''
     = Inr (JObj [(''jsonrpc'', JStr ''2.0''), (''id'', JNum 1)])
   \<and> validate example_env (JObj [(''jsonrpc'', JStr ''2.0''), (''id'', JNum 1)])
       = Inl (Exn ValidationError ''is not valid under any of the given schemas'')
   \<and> dispatch_pure example_env [] ''{"jsonrpc": "2.0", "id": 1}'' example_methods None
         False False
       = (Inr (InvalidJSONRPCResponse None False), [])\<close>
  using dispatch_pure_invalid_request
    [of example_env \<open>''{"jsonrpc": "2.0", "id": 1}''\<close>
        "JObj [(''jsonrpc'', JStr ''2.0''), (''id'', JNum 1)]"
        "''is not valid under any of the given schemas''" "[]" example_methods None False False]
  by (simp add: example_env_defs)

subsection \<open>C8: the id of the request comes back unchanged\<close>

text \<open>
  C8. For every non-notification Request, the Response that \<open>safe_call\<close> produces,
  a success or any of the errors, carries the id of the Request: the same value of the
  same type.
\<close>

theorem safe_call_id_echo:
  "\<not> is_notification request \<Longrightarrow>
   fst (safe_call request methods debug) = Inr response \<Longrightarrow>
   response_id response = Some (req_id request)"
  by (auto simp: safe_call_def split: prod.splits sum.splits if_splits)

text \<open>The string \<open>"1"\<close> comes back as a string, not as the number 1.\<close>

theorem safe_call_id_echo_witness:
  "fst (safe_call (request_of ''ping'' [] (JStr ''1'')) example_methods False)
     = Inr (SuccessResponse (JStr ''pong'') (Some (JStr ''1'')))
   \<and> response_id (SuccessResponse (JStr ''pong'') (Some (JStr ''1''))) = Some (Some (JStr ''1''))
   \<and> Some (Some (JStr ''1'')) \<noteq> Some (Some (JNum 1))"
  using safe_call_id_echo
    [of "request_of ''ping'' [] (JStr ''1'')" example_methods False
        "SuccessResponse (JStr ''pong'') (Some (JStr ''1''))"]
  by (simp add: safe_call_def call_def validate_args_def example_defs)

subsection \<open>C9: classification by the class of the exception\<close>

text \<open>
  C9. The \<^verbatim>\<open>try\<close> of \<open>safe_call\<close> spans the lookup, the binding and the handler, so an
  exception is classified by its class, not by the stage that raised it: for every
  non-notification Request whose handler was found, bound (no keyword argument named
  \<^verbatim>\<open>method\<close>, arguments fitting the signature) and invoked, a TypeError raised
  by the handler's body yields InvalidParamsResponse with the text of the exception, and
  a KeyError raised by the body yields MethodNotFoundResponse with the method name as
  data; neither yields ExceptionResponse.
\<close>

theorem safe_call_classifies_by_type:
  "\<not> is_notification request \<Longrightarrow>
   items methods (method_name request) = Some m \<Longrightarrow>
   ''method'' \<notin> set (map fst (kwargs request)) \<Longrightarrow>
   signature_bind m (args request) (kwargs request) = None \<Longrightarrow>
   body m (args request) (kwargs request) = Inl exc \<Longrightarrow>
   (class_of exc = TypeError \<longrightarrow>
      safe_call request methods debug
        = (Inr (InvalidParamsResponse (req_id request) (str exc) debug),
           [Invoked (args request) (kwargs request)]))
   \<and> (class_of exc = KeyError \<longrightarrow>
      safe_call request methods debug
        = (Inr (MethodNotFoundResponse (req_id request) (method_name request) debug),
           [Invoked (args request) (kwargs request)]))"
  by (simp add: safe_call_def call_def validate_args_def)

theorem safe_call_classifies_by_type_witness:
  "safe_call (request_of ''add'' [JStr ''a'', JNum 1] (JNum 3)) example_methods False
     = (Inr (InvalidParamsResponse (Some (JNum 3)) ''unsupported operand type(s) for +''
               False),
        [Invoked [JStr ''a'', JNum 1] []])
   \<and> safe_call (request_of ''bad_key'' [] (JNum 4)) example_methods False
       = (Inr (MethodNotFoundResponse (Some (JNum 4)) ''bad_key'' False),
          [Invoked [] []])"
  using safe_call_classifies_by_type
    [of "request_of ''add'' [JStr ''a'', JNum 1] (JNum 3)" example_methods add
        "Exn TypeError ''unsupported operand type(s) for +''" False]
    safe_call_classifies_by_type
    [of "request_of ''bad_key'' [] (JNum 4)" example_methods bad_key
        "Exn KeyError ''colour''" False]
  by (simp add: example_defs)

subsection \<open>C10: the default registry\<close>

text \<open>
  C10. For every request text and every choice of options, \<open>dispatch\<close> with no
  \<open>methods\<close> argument (or \<^verbatim>\<open>None\<close>) gives the same result, response and effects, as
  \<open>dispatch\<close> given the process-wide registry \<open>global_methods\<close> explicitly.
\<close>

theorem dispatch_default_methods:
  "dispatch env sched text None basic_logging convert_camel_case context debug
       trim_log_values
     = dispatch env sched text (Some (global_methods env)) basic_logging
         convert_camel_case context debug trim_log_values"
  by (simp add: dispatch_def)

end
